theory Spec2Isabelle
  imports Main "HOL-Library.Word"
begin

unbundle bit_operations_syntax

section \<open>Python values used by proxy\_manager.py\<close>

text \<open>
  A Python \<open>str\<close> is modelled as a \<open>string\<close>: one \<open>char\<close> per code point, for the
  strings whose code points are all below 256. On these code points \<open>str.lower\<close>,
  \<open>str.strip\<close> and \<open>int\<close> are the tables written out below. Python's \<open>int\<close> is
  unbounded and is modelled as \<open>int\<close>.
\<close>

text \<open>The exceptions the code can raise, as values.\<close>

datatype error = ValueError | AttributeError

subsection \<open>str.lower and str.strip\<close>

definition is_upper :: "char \<Rightarrow> bool" where
  \<comment> \<open>the code points below 256 that \<open>str.lower\<close> changes: A-Z and the Latin-1 capitals
      0xC0-0xDE without the multiplication sign 0xD7\<close>
  "is_upper c =
     (let n = (of_char c :: nat)
      in (65 \<le> n \<and> n \<le> 90) \<or> (192 \<le> n \<and> n \<le> 222 \<and> n \<noteq> 215))"

definition lower_char :: "char \<Rightarrow> char" where
  "lower_char c = (if is_upper c then char_of ((of_char c :: nat) + 32) else c)"

definition lower :: "string \<Rightarrow> string" where
  "lower s = map lower_char s"

definition is_space :: "char \<Rightarrow> bool" where
  \<comment> \<open>the code points below 256 that \<open>str.strip()\<close> removes\<close>
  "is_space c =
     (let n = (of_char c :: nat)
      in (9 \<le> n \<and> n \<le> 13) \<or> (28 \<le> n \<and> n \<le> 32) \<or> n = 133 \<or> n = 160)"

definition strip :: "string \<Rightarrow> string" where
  "strip s = rev (dropWhile is_space (rev (dropWhile is_space s)))"

subsection \<open>int(str) and str(int)\<close>

definition int_space :: "char \<Rightarrow> bool" where
  \<comment> \<open>the white space \<open>int\<close> skips around a literal: unlike \<open>strip\<close>, not 0x1C-0x1F\<close>
  "int_space c =
     (let n = (of_char c :: nat)
      in (9 \<le> n \<and> n \<le> 13) \<or> n = 32 \<or> n = 133 \<or> n = 160)"

definition is_digit :: "char \<Rightarrow> bool" where
  "is_digit c = (let n = (of_char c :: nat) in 48 \<le> n \<and> n \<le> 57)"

definition digit_val :: "char \<Rightarrow> nat" where
  "digit_val c = (of_char c :: nat) - 48"

fun int_digits :: "bool \<Rightarrow> string \<Rightarrow> nat list option" where
  \<comment> \<open>the digits of a base-10 literal; a single underscore is allowed between two digits.
      The flag says that the character before was a digit.\<close>
  "int_digits prev [] = (if prev then Some [] else None)"
| "int_digits prev (c # cs) =
     (if is_digit c then map_option ((#) (digit_val c)) (int_digits True cs)
      else if c = CHR ''_'' \<and> prev then int_digits False cs
      else None)"

definition int_max_str_digits :: nat where
  \<comment> \<open>CPython's default limit on the digits of a decimal numeral that \<open>int\<close> reads or
      \<open>str\<close> writes\<close>
  "int_max_str_digits = 4300"

definition int_str :: "string \<Rightarrow> int option" where
  \<comment> \<open>\<open>int(s)\<close> for a \<open>str\<close>; \<open>None\<close> stands for the ValueError\<close>
  "int_str s =
     (let t = rev (dropWhile int_space (rev (dropWhile int_space s)));
          neg = (t \<noteq> [] \<and> hd t = CHR ''-'');
          body = (if t \<noteq> [] \<and> (hd t = CHR ''-'' \<or> hd t = CHR ''+'') then tl t else t)
      in case int_digits False body of
           None \<Rightarrow> None
         | Some ds \<Rightarrow>
             if length ds > int_max_str_digits then None
             else let v = int (foldl (\<lambda>a d. 10 * a + d) 0 ds)
                  in Some (if neg then - v else v))"

fun str_nat :: "nat \<Rightarrow> string" where
  "str_nat n =
     (if n < 10 then [char_of (48 + n)]
      else str_nat (n div 10) @ [char_of (48 + n mod 10)])"

declare str_nat.simps [simp del]

definition decimal :: "int \<Rightarrow> string" where
  \<comment> \<open>the decimal numeral of an \<open>int\<close>, with its sign\<close>
  "decimal i = (if i < 0 then CHR ''-'' # str_nat (nat \<bar>i\<bar>) else str_nat (nat \<bar>i\<bar>))"

definition str_int :: "int \<Rightarrow> error + string" where
  \<comment> \<open>\<open>str(i)\<close>, which is what an f-string writes for an \<open>int\<close>: CPython raises
      ValueError when the numeral has more digits than the limit, the sign not counted\<close>
  "str_int i =
     (if length (str_nat (nat \<bar>i\<bar>)) > int_max_str_digits then Inl ValueError
      else Inr (decimal i))"

fun join :: "string \<Rightarrow> string list \<Rightarrow> string" where
  \<comment> \<open>\<open>sep.join(parts)\<close>\<close>
  "join sep [] = []"
| "join sep [x] = x"
| "join sep (x # y # ys) = x @ sep @ join sep (y # ys)"

subsection \<open>os.getenv\<close>

type_synonym environ = "string \<rightharpoonup> string"

definition getenv :: "environ \<Rightarrow> string \<Rightarrow> string \<Rightarrow> string" where
  "getenv env k d = (case env k of None \<Rightarrow> d | Some v \<Rightarrow> v)"

subsection \<open>uuid.uuid4().hex\<close>

text \<open>
  \<open>uuid.uuid4()\<close> draws 16 random bytes and sets the version and variant bits;
  \<open>.hex\<close> writes the 128-bit value as 32 lower-case hexadecimal digits. The random
  bytes are the one input of the model that the program does not choose.
\<close>

type_synonym uuid = "128 word"

definition uuid4 :: "128 word \<Rightarrow> uuid" where
  "uuid4 r =
     (((r AND NOT (push_bit 48 0xc000)) OR push_bit 48 0x8000)
        AND NOT (push_bit 64 0xf000)) OR push_bit 76 4"

definition hex_digit :: "nat \<Rightarrow> char" where
  "hex_digit n = ''0123456789abcdef'' ! (n mod 16)"

definition hex :: "uuid \<Rightarrow> string" where
  "hex u = map (\<lambda>i. hex_digit (unat (drop_bit (4 * (31 - i)) u AND 15))) [0..<32]"

section \<open>ProxyManager\<close>

definition PROVIDER_DEFAULTS :: "string \<rightharpoonup> string \<times> int" where
  \<comment> \<open>default host and port per provider\<close>
  "PROVIDER_DEFAULTS =
     [''brightdata'' \<mapsto> (''brd.superproxy.io'', 22225),
      ''iproyal'' \<mapsto> (''proxy.iproyal.com'', 12321),
      ''stormproxies'' \<mapsto> (''rotating.stormproxies.com'', 9999),
      ''netnut'' \<mapsto> (''gw-resi.netnut.io'', 5959)]"

record ProxyManager =
  provider :: string
  username :: string
  password :: string
  country :: string
  sticky :: bool
  sticky_ttl_minutes :: int
  enabled :: bool
  host :: string
  port :: int
  session_id :: string

text \<open>
  The keyword arguments of the constructor, with the defaults of its signature. The
  fields carry the types the signature annotates.
\<close>

record init_args =
  arg_provider :: string
  arg_host :: string
  arg_port :: int
  arg_username :: string
  arg_password :: string
  arg_country :: string
  arg_sticky :: bool
  arg_sticky_ttl_minutes :: int
  arg_enabled :: bool

definition default_args :: init_args where
  "default_args =
     \<lparr>arg_provider = ''brightdata'', arg_host = [], arg_port = 0, arg_username = [],
      arg_password = [], arg_country = [], arg_sticky = True,
      arg_sticky_ttl_minutes = 10, arg_enabled = True\<rparr>"

definition generate_session_id :: "128 word \<Rightarrow> string" where
  "generate_session_id r = take 12 (hex (uuid4 r))"

definition init :: "init_args \<Rightarrow> 128 word \<Rightarrow> ProxyManager" where
  \<comment> \<open>\<open>__init__\<close>; \<open>r\<close> is the random draw of the session id\<close>
  "init a r =
     (let prov = strip (lower (arg_provider a));
          defaults = PROVIDER_DEFAULTS prov
      in \<lparr>provider = prov,
          username = arg_username a,
          password = arg_password a,
          country = strip (lower (arg_country a)),
          sticky = arg_sticky a,
          sticky_ttl_minutes = arg_sticky_ttl_minutes a,
          enabled = arg_enabled a,
          host = (if arg_host a \<noteq> [] then arg_host a
                  else case defaults of None \<Rightarrow> [] | Some d \<Rightarrow> fst d),
          port = (if arg_port a \<noteq> 0 then arg_port a
                  else case defaults of None \<Rightarrow> 0 | Some d \<Rightarrow> snd d),
          session_id = generate_session_id r\<rparr>)"

definition rotate_session :: "ProxyManager \<Rightarrow> 128 word \<Rightarrow> string \<times> ProxyManager" where
  \<comment> \<open>returns the new session id and the instance after the assignment; the log line
      is not part of the instance and is left out\<close>
  "rotate_session pm r =
     (let pm' = pm\<lparr>session_id := generate_session_id r\<rparr>
      in (session_id pm', pm'))"

definition build_proxy_username :: "ProxyManager \<Rightarrow> error + string" where
  "build_proxy_username pm =
     (let base = username pm
      in if provider pm = ''brightdata'' then
           (let parts = [base];
                parts = (if country pm \<noteq> [] then parts @ [''country-'' @ country pm]
                         else parts);
                parts = (if sticky pm then parts @ [''session-'' @ session_id pm]
                         else parts)
            in Inr (join ''-'' parts))
         else if provider pm = ''netnut'' then
           (let parts = [base];
                parts = (if country pm \<noteq> [] then parts @ [''country-'' @ country pm]
                         else parts);
                parts = (if sticky pm then parts @ [''session-'' @ session_id pm]
                         else parts)
            in Inr (join ''-'' parts))
         else if provider pm = ''iproyal'' then
           (let parts = [base];
                parts = (if country pm \<noteq> [] then parts @ [''country-'' @ country pm]
                         else parts)
            in if sticky pm then
                 (let parts = parts @ [''session-'' @ session_id pm]
                  in case str_int (sticky_ttl_minutes pm) of
                       Inl e \<Rightarrow> Inl e
                     | Inr ttl \<Rightarrow> Inr (join ''_'' (parts @ [''sessTime-'' @ ttl])))
               else Inr (join ''_'' parts))
         else if provider pm = ''stormproxies'' then Inr base
         else Inr base)"

definition get_playwright_proxy ::
  "ProxyManager \<Rightarrow> error + (string \<times> string) list option" where
  \<comment> \<open>the returned dict as the list of its items, \<open>None\<close> as \<open>None\<close>; the dict display
      evaluates its values in order\<close>
  "get_playwright_proxy pm =
     (if \<not> enabled pm \<or> host pm = [] then Inr None
      else case str_int (port pm) of
             Inl e \<Rightarrow> Inl e
           | Inr p \<Rightarrow>
               (case build_proxy_username pm of
                  Inl e \<Rightarrow> Inl e
                | Inr user \<Rightarrow>
                    Inr (Some [(''server'', ''http://'' @ host pm @ '':'' @ p),
                               (''username'', user),
                               (''password'', password pm)])))"

definition get_requests_proxy ::
  "ProxyManager \<Rightarrow> error + (string \<times> string) list option" where
  "get_requests_proxy pm =
     (if \<not> enabled pm \<or> host pm = [] then Inr None
      else case build_proxy_username pm of
             Inl e \<Rightarrow> Inl e
           | Inr user \<Rightarrow>
               (case str_int (port pm) of
                  Inl e \<Rightarrow> Inl e
                | Inr p \<Rightarrow>
                    (let url = ''http://'' @ user @ '':'' @ password pm @ ''@'' @ host pm
                                 @ '':'' @ p
                     in Inr (Some [(''http'', url), (''https'', url)]))))"

section \<open>Factory helpers\<close>

definition truthy_str :: "string \<Rightarrow> bool" where
  \<comment> \<open>\<open>s.lower() in ("true", "1", "yes")\<close>\<close>
  "truthy_str s = (lower s \<in> set [''true'', ''1'', ''yes''])"

definition from_env :: "environ \<Rightarrow> 128 word \<Rightarrow> error + ProxyManager" where
  "from_env env r =
     (let en = truthy_str (getenv env ''PROXY_ENABLED'' ''false'')
      in if \<not> en then Inr (init (default_args\<lparr>arg_enabled := False\<rparr>) r)
         else
           case int_str (getenv env ''PROXY_PORT'' ''0'') of
             None \<Rightarrow> Inl ValueError
           | Some p \<Rightarrow>
               (case int_str (getenv env ''PROXY_STICKY_TTL'' ''10'') of
                  None \<Rightarrow> Inl ValueError
                | Some ttl \<Rightarrow>
                    Inr (init
                      \<lparr>arg_provider = getenv env ''PROXY_PROVIDER'' ''brightdata'',
                       arg_host = getenv env ''PROXY_HOST'' [],
                       arg_port = p,
                       arg_username = getenv env ''PROXY_USERNAME'' [],
                       arg_password = getenv env ''PROXY_PASSWORD'' [],
                       arg_country = getenv env ''PROXY_COUNTRY'' [],
                       arg_sticky = truthy_str (getenv env ''PROXY_STICKY'' ''true''),
                       arg_sticky_ttl_minutes = ttl,
                       arg_enabled = True\<rparr> r)))"

subsection \<open>The configuration document\<close>

text \<open>
  A value \<open>json.load\<close> returns: \<open>None\<close>, a \<open>bool\<close>, an \<open>int\<close>, a \<open>str\<close>, a \<open>list\<close> or a
  \<open>dict\<close> with \<open>str\<close> keys (the list of its items). Numbers with a fraction or an
  exponent (Python's \<open>float\<close>) are not modelled.
\<close>

datatype json =
    Null
  | Bool bool
  | Num int
  | Str string
  | Arr "json list"
  | Obj "(string \<times> json) list"

fun truthy :: "json \<Rightarrow> bool" where
  \<comment> \<open>Python's truth value of an object\<close>
  "truthy Null = False"
| "truthy (Bool b) = b"
| "truthy (Num n) = (n \<noteq> 0)"
| "truthy (Str s) = (s \<noteq> [])"
| "truthy (Arr xs) = (xs \<noteq> [])"
| "truthy (Obj kvs) = (kvs \<noteq> [])"

definition py_or :: "json \<Rightarrow> json \<Rightarrow> json" where
  \<comment> \<open>\<open>x or y\<close>\<close>
  "py_or x y = (if truthy x then x else y)"

definition is_str :: "json \<Rightarrow> bool" where
  \<comment> \<open>\<open>isinstance(x, str)\<close>\<close>
  "is_str x = (case x of Str s \<Rightarrow> True | _ \<Rightarrow> False)"

text \<open>
  The \<open>proxy\<close> section: the nine keys \<open>from_config\<close> reads from it. The code only tests
  \<open>enabled\<close>, and it calls \<open>.lower()\<close> on \<open>provider\<close> and \<open>country\<close>, so these three are
  any value, when the key is there. The constructor stores the other six as they are
  given: they have the type the constructor's signature annotates, so that the
  instance built is one the record \<open>ProxyManager\<close> describes. \<open>host\<close>, \<open>port\<close>,
  \<open>username\<close> and \<open>password\<close> may also be \<open>null\<close>, which the code replaces as it does the
  empty string and 0.
\<close>

datatype 'a field = Missing | IsNull | Has 'a

record proxy_section =
  cfg_enabled :: "json option"
  cfg_provider :: "json option"
  cfg_host :: "string field"
  cfg_port :: "int field"
  cfg_username :: "string field"
  cfg_password :: "string field"
  cfg_country :: "json option"
  cfg_sticky :: "bool option"
  cfg_sticky_ttl_minutes :: "int option"

definition empty_section :: proxy_section where
  \<comment> \<open>the \<open>{}\<close> that \<open>cfg.get("proxy", {})\<close> falls back to\<close>
  "empty_section =
     \<lparr>cfg_enabled = None, cfg_provider = None, cfg_host = Missing, cfg_port = Missing,
      cfg_username = Missing, cfg_password = Missing, cfg_country = None,
      cfg_sticky = None, cfg_sticky_ttl_minutes = None\<rparr>"

text \<open>
  A value that is not a \<open>dict\<close>, and so has no \<open>get\<close>: the items of a list do not matter.
\<close>

datatype non_dict = NoneValue | BoolValue bool | IntValue int | StrValue string | ListValue "json list"

datatype proxy_entry = Section proxy_section | NotSection non_dict

text \<open>
  The document: a \<open>dict\<close>, of which only the entry under \<open>proxy\<close> is read (\<open>None\<close> when
  the key is not there), or a value that is not a \<open>dict\<close>.
\<close>

datatype document = Dict "proxy_entry option" | NotDict non_dict

definition get_or :: "'a option \<Rightarrow> 'a \<Rightarrow> 'a" where
  \<comment> \<open>\<open>d.get(k, default)\<close> on the entry of \<open>k\<close>\<close>
  "get_or entry d = (case entry of None \<Rightarrow> d | Some v \<Rightarrow> v)"

definition str_or :: "string field \<Rightarrow> string \<Rightarrow> string" where
  \<comment> \<open>\<open>proxy_cfg.get(k, "") or y\<close>: a missing key, \<open>null\<close> and the empty string give \<open>y\<close>\<close>
  "str_or f y = (case f of Has s \<Rightarrow> (if s \<noteq> [] then s else y) | _ \<Rightarrow> y)"

definition construct :: "proxy_section \<Rightarrow> environ \<Rightarrow> 128 word \<Rightarrow> error + ProxyManager" where
  \<comment> \<open>the final \<open>cls(...)\<close> of \<open>from_config\<close>. The constructor calls \<open>.lower()\<close> on
      \<open>provider\<close> and then on \<open>country\<close>, which only a \<open>str\<close> has. A \<open>null\<close> host or port
      reaches it as \<open>None\<close>, which \<open>host or ...\<close> and \<open>port or ...\<close> replace as they do
      the empty string and 0.\<close>
  "construct proxy_cfg env r =
     (case (get_or (cfg_provider proxy_cfg) (Str ''brightdata''),
            py_or (get_or (cfg_country proxy_cfg) (Str []))
                  (Str (getenv env ''PROXY_COUNTRY'' []))) of
        (Str prov, Str c) \<Rightarrow>
          Inr (init
            \<lparr>arg_provider = prov,
             arg_host = (case cfg_host proxy_cfg of Has h \<Rightarrow> h | _ \<Rightarrow> []),
             arg_port = (case cfg_port proxy_cfg of Has p \<Rightarrow> p | _ \<Rightarrow> 0),
             arg_username = str_or (cfg_username proxy_cfg) (getenv env ''PROXY_USERNAME'' []),
             arg_password = str_or (cfg_password proxy_cfg) (getenv env ''PROXY_PASSWORD'' []),
             arg_country = c,
             arg_sticky = get_or (cfg_sticky proxy_cfg) True,
             arg_sticky_ttl_minutes = get_or (cfg_sticky_ttl_minutes proxy_cfg) 10,
             arg_enabled = True\<rparr> r)
      | _ \<Rightarrow> Inl AttributeError)"

datatype load_failure =
  FileNotFoundError | PermissionError | JSONDecodeError | UnicodeDecodeError | OtherException

definition from_config :: "load_failure + document \<Rightarrow> environ \<Rightarrow> 128 word \<Rightarrow> error + ProxyManager" where
  \<comment> \<open>the first argument is the outcome of opening the file and \<open>json.load\<close>: the
      exception caught, or the document; the warning logged is left out\<close>
  "from_config loaded env r =
     (case loaded of
        Inl exc \<Rightarrow> from_env env r
      | Inr cfg \<Rightarrow>
          (case cfg of
             NotDict v \<Rightarrow> Inl AttributeError
           | Dict entry \<Rightarrow>
               (case get_or entry (Section empty_section) of
                  NotSection v \<Rightarrow> Inl AttributeError
                | Section proxy_cfg \<Rightarrow>
                    if \<not> truthy (get_or (cfg_enabled proxy_cfg) (Bool False))
                    then Inr (init (default_args\<lparr>arg_enabled := False\<rparr>) r)
                    else construct proxy_cfg env r)))"

text \<open>
  The segment sequence of the specification: the raw username, then
  \<open>country-<country>\<close> if the country is set, then \<open>session-<sessionId>\<close> if sticky.
\<close>

definition spec_segments :: "ProxyManager \<Rightarrow> string list" where
  "spec_segments pm =
     [username pm]
     @ (if country pm \<noteq> [] then [''country-'' @ country pm] else [])
     @ (if sticky pm then [''session-'' @ session_id pm] else [])"

definition pm_netnut :: ProxyManager where
  \<comment> \<open>a sample instance\<close>
  "pm_netnut =
     \<lparr>provider = ''netnut'', username = ''u'', password = ''p'', country = ''us'',
      sticky = True, sticky_ttl_minutes = 15, enabled = True, host = ''gw-resi.netnut.io'',
      port = 5959, session_id = ''0123456789ab''\<rparr>"

text \<open>
  \<open>cls(enabled=False)\<close>, the instance both factory helpers return when the proxy is off.
\<close>

abbreviation cls_disabled :: "128 word \<Rightarrow> ProxyManager" where
  "cls_disabled r \<equiv> init (default_args\<lparr>arg_enabled := False\<rparr>) r"

text \<open>
  The two normal forms of the specification: no upper-case character, and no white
  space at either end.
\<close>

definition lower_case :: "string \<Rightarrow> bool" where
  "lower_case s = (\<forall>c \<in> set s. \<not> is_upper c)"

definition stripped :: "string \<Rightarrow> bool" where
  "stripped s = (s = [] \<or> (\<not> is_space (hd s) \<and> \<not> is_space (last s)))"

text \<open>
  The instances a program can hold: built by the constructor, then rotated any number
  of times, once per random draw of the list. Rotation is the only method that assigns
  a field.
\<close>

fun rotations :: "ProxyManager \<Rightarrow> 128 word list \<Rightarrow> ProxyManager" where
  "rotations pm [] = pm"
| "rotations pm (r # rs) = rotations (snd (rotate_session pm r)) rs"

section \<open>Properties of the string operations\<close>

lemma lower_char_not_upper: "\<not> is_upper (lower_char c)"
  by (auto simp: lower_char_def is_upper_def Let_def)

lemma dropWhile_snoc_keep: "\<not> P x \<Longrightarrow> \<exists>ys. dropWhile P (zs @ [x]) = ys @ [x]"
  by (induction zs) auto

lemma set_strip: "set (strip s) \<subseteq> set s"
proof -
  have "set (strip s) \<subseteq> set (dropWhile is_space s)"
    unfolding strip_def
    using set_dropWhileD [of _ is_space "rev (dropWhile is_space s)"] by auto
  also have "\<dots> \<subseteq> set s"
    using set_dropWhileD [of _ is_space s] by auto
  finally show ?thesis .
qed

lemma strip_nonempty_form:
  "strip s \<noteq> [] \<Longrightarrow> \<exists>x ys. strip s = x # ys \<and> \<not> is_space x"
proof -
  assume a: "strip s \<noteq> []"
  define t where "t = dropWhile is_space s"
  have st: "strip s = rev (dropWhile is_space (rev t))"
    by (simp only: strip_def t_def)
  have ne: "t \<noteq> []"
  proof
    assume "t = []"
    then have "strip s = []" by (simp add: st)
    with a show False by simp
  qed
  then obtain x t' where t: "t = x # t'" by (cases t) simp_all
  have "\<not> is_space (hd t)"
    unfolding t_def using ne [unfolded t_def] by (rule hd_dropWhile)
  then have nx: "\<not> is_space x" by (simp add: t)
  have "\<exists>ys. dropWhile is_space (rev t' @ [x]) = ys @ [x]"
    using nx by (rule dropWhile_snoc_keep)
  then obtain ys where ys: "dropWhile is_space (rev t' @ [x]) = ys @ [x]" ..
  have "rev t = rev t' @ [x]" by (simp add: t)
  then have "strip s = rev (ys @ [x])" by (simp only: st ys)
  then have "strip s = x # rev ys" by simp
  with nx show ?thesis by blast
qed

lemma strip_no_leading: "strip s \<noteq> [] \<Longrightarrow> \<not> is_space (hd (strip s))"
proof -
  assume "strip s \<noteq> []"
  then have "\<exists>x ys. strip s = x # ys \<and> \<not> is_space x"
    by (rule strip_nonempty_form)
  then obtain x ys where "strip s = x # ys" and "\<not> is_space x"
    by (elim exE conjE)
  then show ?thesis by simp
qed

lemma strip_no_trailing: "strip s \<noteq> [] \<Longrightarrow> \<not> is_space (last (strip s))"
proof -
  assume a: "strip s \<noteq> []"
  let ?t = "dropWhile is_space (rev (dropWhile is_space s))"
  from a have ne: "?t \<noteq> []" by (simp add: strip_def)
  then have "\<not> is_space (hd ?t)" by (rule hd_dropWhile)
  moreover have "last (strip s) = hd ?t" using ne by (simp add: strip_def last_rev)
  ultimately show ?thesis by simp
qed

lemma length_hex: "length (hex u) = 32"
  by (simp add: hex_def)

lemma length_generate_session_id: "length (generate_session_id r) = 12"
  by (simp add: generate_session_id_def length_hex)

lemma dom_PROVIDER_DEFAULTS:
  "dom PROVIDER_DEFAULTS = {''brightdata'', ''iproyal'', ''stormproxies'', ''netnut''}"
  unfolding PROVIDER_DEFAULTS_def dom_fun_upd dom_empty by (simp add: insert_commute)


section \<open>Decimal numerals\<close>

lemma str_nat_digit: "n < 10 \<Longrightarrow> str_nat n = [char_of (48 + n)]"
  by (subst str_nat.simps) simp

lemma str_nat_more: "10 \<le> n \<Longrightarrow> str_nat n = str_nat (n div 10) @ [char_of (48 + n mod 10)]"
  by (subst str_nat.simps) simp

lemma length_str_nat_pos: "0 < length (str_nat n)"
  by (subst str_nat.simps) simp

lemma length_str_nat_le_iff: "0 < k \<Longrightarrow> length (str_nat n) \<le> k \<longleftrightarrow> n < 10 ^ k"
proof (induction n arbitrary: k rule: str_nat.induct)
  case (1 n)
  show ?case
  proof (cases "n < 10")
    case True
    have "(10::nat) ^ 1 \<le> 10 ^ k"
      using "1.prems" by (intro power_increasing) simp_all
    with True have "n < 10 ^ k" by simp
    with True show ?thesis
      using "1.prems" by (simp add: str_nat_digit)
  next
    case False
    then have len: "length (str_nat n) = Suc (length (str_nat (n div 10)))"
      by (simp add: str_nat_more)
    show ?thesis
    proof (cases "k = 1")
      case True
      with False len length_str_nat_pos [of "n div 10"] show ?thesis by simp
    next
      case k: False
      with "1.prems" obtain j where j: "k = Suc j" "0 < j"
        by (cases k) simp_all
      from "1.IH" [OF False j(2)]
      have "length (str_nat (n div 10)) \<le> j \<longleftrightarrow> n div 10 < 10 ^ j" .
      also have "\<dots> \<longleftrightarrow> n < 10 ^ k"
        by (simp add: j(1) div_less_iff_less_mult mult.commute)
      finally show ?thesis by (simp add: len j(1))
    qed
  qed
qed

lemma str_int_eq:
  "str_int i = (if \<bar>i\<bar> < 10 ^ int_max_str_digits then Inr (decimal i) else Inl ValueError)"
proof -
  have "0 < int_max_str_digits" by (simp add: int_max_str_digits_def)
  then have "length (str_nat (nat \<bar>i\<bar>)) \<le> int_max_str_digits
              \<longleftrightarrow> nat \<bar>i\<bar> < 10 ^ int_max_str_digits"
    by (rule length_str_nat_le_iff)
  also have "\<dots> \<longleftrightarrow> \<bar>i\<bar> < 10 ^ int_max_str_digits"
  proof -
    have "int (nat \<bar>i\<bar>) = \<bar>i\<bar>" by simp
    then show ?thesis
      by (metis of_nat_less_iff of_nat_numeral of_nat_power)
  qed
  finally show ?thesis by (auto simp: str_int_def)
qed

lemmas str_eval = str_int_def decimal_def int_max_str_digits_def str_nat_digit str_nat_more
  char_of_eq_iff

lemmas lower_eval = lower_def lower_char_def is_upper_def char_of_eq_iff

section \<open>Evaluation and factory lemmas\<close>

lemma init_disabled_fields:
  "cls_disabled r =
     \<lparr>provider = ''brightdata'', username = [], password = [], country = [],
      sticky = True, sticky_ttl_minutes = 10, enabled = False,
      host = ''brd.superproxy.io'', port = 22225, session_id = generate_session_id r\<rparr>"
  by (simp add: init_def default_args_def PROVIDER_DEFAULTS_def lower_def strip_def
      lower_char_def is_upper_def is_space_def)

lemma from_env_disabled:
  "\<not> truthy_str (getenv env ''PROXY_ENABLED'' ''false'') \<Longrightarrow>
   from_env env r = Inr (cls_disabled r)"
  by (simp add: from_env_def)

lemma from_config_no_section:
  "from_config (Inr (Dict None)) env r = Inr (cls_disabled r)"
  by (simp add: from_config_def get_or_def empty_section_def)

lemma from_config_section_disabled:
  "(case cfg_enabled sect of None \<Rightarrow> True | Some v \<Rightarrow> \<not> truthy v) \<Longrightarrow>
   from_config (Inr (Dict (Some (Section sect)))) env r = Inr (cls_disabled r)"
  by (simp add: from_config_def get_or_def split: option.splits)

lemma outputs_absent:
  "\<not> enabled pm \<or> host pm = [] \<Longrightarrow>
   get_playwright_proxy pm = Inr None \<and> get_requests_proxy pm = Inr None"
  by (simp add: get_playwright_proxy_def get_requests_proxy_def)

lemma build_proxy_username_Inl:
  "build_proxy_username pm = Inl x \<longleftrightarrow>
     x = ValueError \<and> provider pm = ''iproyal'' \<and> sticky pm \<and>
     10 ^ int_max_str_digits \<le> \<bar>sticky_ttl_minutes pm\<bar>"
  by (auto simp: build_proxy_username_def str_int_eq not_less Let_def)

section \<open>Username formatting\<close>

text \<open>
  C2, as the code has it. For the providers \<open>brightdata\<close> and \<open>netnut\<close> the formatted
  username is the segments [raw username, \<open>country-<country>\<close> if the country is not
  empty, \<open>session-<sessionId>\<close> if sticky] joined with \<open>-\<close>, an unset segment being left
  out. For \<open>iproyal\<close> it is the same segments followed, when sticky, by
  \<open>sessTime-<stickyTtlMinutes>\<close>, joined with \<open>_\<close>, as long as the decimal numeral of
  the sticky lifetime has at most 4300 digits; for a sticky instance whose lifetime has
  more, writing the numeral raises ValueError.
\<close>

theorem build_proxy_username_segments:
  "(provider pm = ''brightdata'' \<or> provider pm = ''netnut'' \<longrightarrow>
      build_proxy_username pm = Inr (join ''-'' (spec_segments pm))) \<and>
   (provider pm = ''iproyal'' \<longrightarrow>
      build_proxy_username pm =
        (if sticky pm \<and> 10 ^ int_max_str_digits \<le> \<bar>sticky_ttl_minutes pm\<bar>
         then Inl ValueError
         else Inr (join ''_''
                (spec_segments pm
                 @ (if sticky pm then [''sessTime-'' @ decimal (sticky_ttl_minutes pm)]
                    else [])))))"
  by (simp add: build_proxy_username_def spec_segments_def str_int_eq not_less)

theorem build_proxy_username_segments_witness:
  "build_proxy_username pm_netnut = Inr ''u-country-us-session-0123456789ab'' \<and>
   build_proxy_username (pm_netnut\<lparr>provider := ''iproyal''\<rparr>)
     = Inr ''u_country-us_session-0123456789ab_sessTime-15''"
proof -
  have s15: "decimal 15 = ''15''"
    by (simp add: str_eval)
  have small: "\<not> (10 ^ int_max_str_digits \<le> \<bar>15 :: int\<bar>)"
  proof -
    have "(10::int) ^ 2 \<le> 10 ^ int_max_str_digits"
      by (intro power_increasing) (simp_all add: int_max_str_digits_def)
    then show ?thesis by simp
  qed
  have "build_proxy_username pm_netnut = Inr ''u-country-us-session-0123456789ab''"
    using build_proxy_username_segments [of pm_netnut]
    by (simp add: spec_segments_def pm_netnut_def)
  moreover have "build_proxy_username (pm_netnut\<lparr>provider := ''iproyal''\<rparr>)
      = Inr ''u_country-us_session-0123456789ab_sessTime-15''"
    using build_proxy_username_segments [of "pm_netnut\<lparr>provider := ''iproyal''\<rparr>"] small
    by (simp add: spec_segments_def pm_netnut_def s15)
  ultimately show ?thesis by simp
qed

text \<open>
  The \<open>iproyal\<close> branch does not return a username for every instance: with a sticky
  lifetime of \<open>10 ** 4300\<close> the f-string raises.
\<close>

theorem build_proxy_username_iproyal_counterexample:
  "build_proxy_username
     (pm_netnut\<lparr>provider := ''iproyal'', sticky_ttl_minutes := 10 ^ int_max_str_digits\<rparr>)
     = Inl ValueError"
  by (simp add: build_proxy_username_def pm_netnut_def str_int_eq)

text \<open>
  C6. For the provider \<open>stormproxies\<close> and for every provider outside the four known
  ones the formatted username is the raw username, whatever the country, the sticky
  flag and the sticky lifetime are.
\<close>

theorem build_proxy_username_passthrough:
  "provider pm = ''stormproxies'' \<or> provider pm \<notin> dom PROVIDER_DEFAULTS \<Longrightarrow>
   build_proxy_username pm = Inr (username pm)"
proof -
  assume h: "provider pm = ''stormproxies'' \<or> provider pm \<notin> dom PROVIDER_DEFAULTS"
  have "provider pm \<noteq> ''brightdata'' \<and> provider pm \<noteq> ''netnut''
          \<and> provider pm \<noteq> ''iproyal''"
    using h unfolding dom_PROVIDER_DEFAULTS by (elim disjE) simp_all
  then show ?thesis
    by (simp add: build_proxy_username_def)
qed

theorem build_proxy_username_passthrough_witness:
  "build_proxy_username (pm_netnut\<lparr>provider := ''stormproxies''\<rparr>) = Inr ''u'' \<and>
   build_proxy_username (pm_netnut\<lparr>provider := ''custom''\<rparr>) = Inr ''u''"
proof -
  have "build_proxy_username (pm_netnut\<lparr>provider := ''stormproxies''\<rparr>) = Inr ''u''"
    using build_proxy_username_passthrough [of "pm_netnut\<lparr>provider := ''stormproxies''\<rparr>"]
    by (simp add: pm_netnut_def)
  moreover have "build_proxy_username (pm_netnut\<lparr>provider := ''custom''\<rparr>) = Inr ''u''"
    using build_proxy_username_passthrough [of "pm_netnut\<lparr>provider := ''custom''\<rparr>"]
    by (simp add: pm_netnut_def dom_PROVIDER_DEFAULTS)
  ultimately show ?thesis by simp
qed

section \<open>Output helpers\<close>

text \<open>
  C7, as the code has it. For every enabled instance with a non-empty host, whose
  formatted username is built and whose port has a decimal numeral of at most 4300
  digits, \<open>get_requests_proxy\<close> returns a mapping whose \<open>http\<close> and \<open>https\<close> entries are
  the same string \<open>http://<user>:<password>@<host>:<port>\<close>, where \<open><user>\<close> is the
  formatted username. When the port has more digits, or the username is not built (an
  \<open>iproyal\<close> sticky instance whose lifetime has more digits), it raises ValueError.
\<close>

theorem get_requests_proxy_url:
  "enabled pm \<Longrightarrow> host pm \<noteq> [] \<Longrightarrow>
   (build_proxy_username pm = Inr user \<and> \<bar>port pm\<bar> < 10 ^ int_max_str_digits \<longrightarrow>
      get_requests_proxy pm =
        Inr (Some [(''http'', ''http://'' @ user @ '':'' @ password pm @ ''@''
                          @ host pm @ '':'' @ decimal (port pm)),
                   (''https'', ''http://'' @ user @ '':'' @ password pm @ ''@''
                          @ host pm @ '':'' @ decimal (port pm))])) \<and>
   (build_proxy_username pm = Inl ValueError \<or> 10 ^ int_max_str_digits \<le> \<bar>port pm\<bar> \<longrightarrow>
      get_requests_proxy pm = Inl ValueError) \<and>
   (build_proxy_username pm = Inl ValueError \<longleftrightarrow>
      provider pm = ''iproyal'' \<and> sticky pm \<and>
      10 ^ int_max_str_digits \<le> \<bar>sticky_ttl_minutes pm\<bar>)"
proof -
  assume e: "enabled pm" and h: "host pm \<noteq> []"
  have b: "build_proxy_username pm = Inl ValueError \<longleftrightarrow>
      provider pm = ''iproyal'' \<and> sticky pm \<and>
      10 ^ int_max_str_digits \<le> \<bar>sticky_ttl_minutes pm\<bar>"
    by (simp add: build_proxy_username_Inl)
  have g: "get_requests_proxy pm =
      (case build_proxy_username pm of
         Inl e \<Rightarrow> Inl e
       | Inr user \<Rightarrow>
           (if \<bar>port pm\<bar> < 10 ^ int_max_str_digits
            then Inr (Some [(''http'', ''http://'' @ user @ '':'' @ password pm @ ''@''
                          @ host pm @ '':'' @ decimal (port pm)),
                   (''https'', ''http://'' @ user @ '':'' @ password pm @ ''@''
                          @ host pm @ '':'' @ decimal (port pm))])
            else Inl ValueError))"
    using e h by (simp add: get_requests_proxy_def str_int_eq Let_def split: sum.splits)
  show ?thesis
  proof (cases "build_proxy_username pm")
    case (Inl x)
    then have "x = ValueError" by (simp add: build_proxy_username_Inl)
    with Inl g b show ?thesis by simp
  next
    case (Inr u)
    with g b show ?thesis by (simp add: not_less)
  qed
qed


theorem get_requests_proxy_url_witness:
  "get_requests_proxy pm_netnut =
     Inr (Some [(''http'', ''http://u-country-us-session-0123456789ab:p@gw-resi.netnut.io:5959''),
                (''https'', ''http://u-country-us-session-0123456789ab:p@gw-resi.netnut.io:5959'')])"
proof -
  have e: "enabled pm_netnut" and h: "host pm_netnut \<noteq> []"
    by (simp_all add: pm_netnut_def)
  have u: "build_proxy_username pm_netnut = Inr ''u-country-us-session-0123456789ab''"
    by (simp add: build_proxy_username_def pm_netnut_def)
  have p: "decimal (port pm_netnut) = ''5959''"
    by (simp add: pm_netnut_def str_eval)
  have small: "\<bar>port pm_netnut\<bar> < 10 ^ int_max_str_digits"
  proof -
    have "(10::int) ^ 4 \<le> 10 ^ int_max_str_digits"
      by (intro power_increasing) (simp_all add: int_max_str_digits_def)
    then show ?thesis by (simp add: pm_netnut_def)
  qed
  have f: "password pm_netnut = ''p''" "host pm_netnut = ''gw-resi.netnut.io''"
    by (simp_all add: pm_netnut_def)
  from get_requests_proxy_url [OF e h, of "''u-country-us-session-0123456789ab''"] u small
  have "get_requests_proxy pm_netnut =
        Inr (Some [(''http'', ''http://'' @ ''u-country-us-session-0123456789ab'' @ '':''
                      @ password pm_netnut @ ''@'' @ host pm_netnut @ '':''
                      @ decimal (port pm_netnut)),
                   (''https'', ''http://'' @ ''u-country-us-session-0123456789ab'' @ '':''
                      @ password pm_netnut @ ''@'' @ host pm_netnut @ '':''
                      @ decimal (port pm_netnut))])"
    by blast
  then show ?thesis
    unfolding p f by simp
qed

text \<open>
  An enabled instance with a host for which \<open>get_requests_proxy\<close> returns no mapping: its
  port is \<open>10 ** 4300\<close>, and the f-string raises.
\<close>

theorem get_requests_proxy_port_counterexample:
  "enabled (pm_netnut\<lparr>port := 10 ^ int_max_str_digits\<rparr>) \<and>
   host (pm_netnut\<lparr>port := 10 ^ int_max_str_digits\<rparr>) \<noteq> [] \<and>
   get_requests_proxy (pm_netnut\<lparr>port := 10 ^ int_max_str_digits\<rparr>) = Inl ValueError"
  by (simp add: get_requests_proxy_def build_proxy_username_def pm_netnut_def str_int_eq)

text \<open>
  C4. For every instance with \<open>enabled = False\<close>, and for every enabled instance with an
  empty host, \<open>get_playwright_proxy\<close> and \<open>get_requests_proxy\<close> both return \<open>None\<close>,
  whatever the other fields hold. The instance is disabled when it is built directly
  with \<open>enabled=False\<close>, when \<open>PROXY_ENABLED\<close> is unset or not a true value, and when
  the \<open>proxy\<close> section of the configuration has \<open>enabled\<close> missing or false.
\<close>

theorem disabled_or_hostless_absent:
  "(\<not> enabled pm \<or> host pm = [] \<longrightarrow>
      get_playwright_proxy pm = Inr None \<and> get_requests_proxy pm = Inr None) \<and>
   (get_playwright_proxy (init (a\<lparr>arg_enabled := False\<rparr>) r) = Inr None \<and>
    get_requests_proxy (init (a\<lparr>arg_enabled := False\<rparr>) r) = Inr None) \<and>
   (\<not> truthy_str (getenv env ''PROXY_ENABLED'' ''false'') \<longrightarrow>
      (\<exists>pm'. from_env env r = Inr pm' \<and> \<not> enabled pm' \<and>
         get_playwright_proxy pm' = Inr None \<and> get_requests_proxy pm' = Inr None)) \<and>
   ((case cfg_enabled sect of None \<Rightarrow> True | Some v \<Rightarrow> \<not> truthy v) \<longrightarrow>
      (\<exists>pm'. from_config (Inr (Dict (Some (Section sect)))) env r = Inr pm' \<and> \<not> enabled pm' \<and>
         get_playwright_proxy pm' = Inr None \<and> get_requests_proxy pm' = Inr None))"
proof (intro conjI impI)
  assume "\<not> enabled pm \<or> host pm = []"
  then show "get_playwright_proxy pm = Inr None" "get_requests_proxy pm = Inr None"
    using outputs_absent [of pm] by simp_all
next
  have d: "\<not> enabled (init (a\<lparr>arg_enabled := False\<rparr>) r)"
    by (simp add: init_def Let_def)
  show "get_playwright_proxy (init (a\<lparr>arg_enabled := False\<rparr>) r) = Inr None"
    "get_requests_proxy (init (a\<lparr>arg_enabled := False\<rparr>) r) = Inr None"
    using outputs_absent [of "init (a\<lparr>arg_enabled := False\<rparr>) r"] d by simp_all
next
  have d: "\<not> enabled (cls_disabled r)"
    by (simp add: init_disabled_fields)
  then have o: "get_playwright_proxy (cls_disabled r) = Inr None \<and>
                get_requests_proxy (cls_disabled r) = Inr None"
    using outputs_absent [of "cls_disabled r"] by simp
  {
    assume "\<not> truthy_str (getenv env ''PROXY_ENABLED'' ''false'')"
    then have "from_env env r = Inr (cls_disabled r)" by (rule from_env_disabled)
    with d o show "\<exists>pm'. from_env env r = Inr pm' \<and> \<not> enabled pm' \<and>
         get_playwright_proxy pm' = Inr None \<and> get_requests_proxy pm' = Inr None" by simp
  }
  {
    assume "case cfg_enabled sect of None \<Rightarrow> True | Some v \<Rightarrow> \<not> truthy v"
    then have "from_config (Inr (Dict (Some (Section sect)))) env r = Inr (cls_disabled r)"
      by (rule from_config_section_disabled)
    with d o show "\<exists>pm'. from_config (Inr (Dict (Some (Section sect)))) env r = Inr pm' \<and>
         \<not> enabled pm' \<and>
         get_playwright_proxy pm' = Inr None \<and> get_requests_proxy pm' = Inr None" by simp
  }
qed

theorem disabled_or_hostless_absent_witness:
  "get_playwright_proxy (pm_netnut\<lparr>enabled := False\<rparr>) = Inr None \<and>
   get_requests_proxy (pm_netnut\<lparr>enabled := False\<rparr>) = Inr None \<and>
   (\<exists>pm'. from_env Map.empty 0 = Inr pm' \<and> \<not> enabled pm' \<and>
      get_playwright_proxy pm' = Inr None \<and> get_requests_proxy pm' = Inr None) \<and>
   (\<exists>pm'. from_config (Inr (Dict (Some (Section (empty_section\<lparr>cfg_enabled := Some (Bool False)\<rparr>)))))
             Map.empty 0 = Inr pm' \<and> \<not> enabled pm' \<and>
      get_playwright_proxy pm' = Inr None \<and> get_requests_proxy pm' = Inr None)"
proof -
  have h1: "\<not> enabled (pm_netnut\<lparr>enabled := False\<rparr>) \<or> host (pm_netnut\<lparr>enabled := False\<rparr>) = []"
    by simp
  have h2: "\<not> truthy_str (getenv Map.empty ''PROXY_ENABLED'' ''false'')"
    by (simp add: truthy_str_def getenv_def lower_eval)
  have h3: "case cfg_enabled (empty_section\<lparr>cfg_enabled := Some (Bool False)\<rparr>) of
               None \<Rightarrow> True | Some v \<Rightarrow> \<not> truthy v"
    by simp
  show ?thesis
    using disabled_or_hostless_absent
            [of "pm_netnut\<lparr>enabled := False\<rparr>" default_args 0 Map.empty
                "empty_section\<lparr>cfg_enabled := Some (Bool False)\<rparr>"]
      h1 h2 h3
    by blast
qed

section \<open>Configuration fallback\<close>

text \<open>
  C3. When loading the configuration fails, for whatever reason, \<open>from_config\<close> does
  what \<open>from_env\<close> does on the same environment (and the same random draw): the same
  instance, or the same exception.
\<close>

theorem from_config_load_failure:
  "from_config (Inl exc) env r = from_env env r"
  by (simp add: from_config_def)

section \<open>Construction\<close>

lemma PROVIDER_DEFAULTS_nonempty:
  "PROVIDER_DEFAULTS p = Some d \<Longrightarrow> fst d \<noteq> [] \<and> snd d \<noteq> 0"
  by (clarsimp simp: PROVIDER_DEFAULTS_def split: if_splits)


lemma init_fields:
  "provider (init a r) = strip (lower (arg_provider a))"
  "country (init a r) = strip (lower (arg_country a))"
  "username (init a r) = arg_username a"
  "password (init a r) = arg_password a"
  "sticky (init a r) = arg_sticky a"
  "sticky_ttl_minutes (init a r) = arg_sticky_ttl_minutes a"
  "enabled (init a r) = arg_enabled a"
  "session_id (init a r) = generate_session_id r"
  "host (init a r) = (if arg_host a \<noteq> [] then arg_host a
                      else case PROVIDER_DEFAULTS (provider (init a r)) of
                             None \<Rightarrow> [] | Some d \<Rightarrow> fst d)"
  "port (init a r) = (if arg_port a \<noteq> 0 then arg_port a
                      else case PROVIDER_DEFAULTS (provider (init a r)) of
                             None \<Rightarrow> 0 | Some d \<Rightarrow> snd d)"
  by (simp_all add: init_def Let_def)




section \<open>Session management\<close>

lemma rotate_session_eq:
  "rotate_session pm r = (generate_session_id r, pm\<lparr>session_id := generate_session_id r\<rparr>)"
  by (simp add: rotate_session_def Let_def)

text \<open>
  The version and variant bits that \<open>uuid4\<close> overwrites lie below bit 80, so the
  first 12 hexadecimal digits of the UUID are those of the random draw itself, and
  two draws give the same token exactly when their 48 leading bits agree.
\<close>

lemma uuid_constants:
  "(0xc000 :: 128 word) = push_bit 14 (mask 2)" "(0x8000 :: 128 word) = push_bit 15 1"
  "(0xf000 :: 128 word) = push_bit 12 (mask 4)" "(4 :: 128 word) = push_bit 2 1"
  by (simp_all add: mask_eq_exp_minus_1 push_bit_eq_mult)

lemma drop_bit_uuid4: "drop_bit 80 (uuid4 r) = drop_bit 80 r"
  unfolding uuid4_def uuid_constants
  by (rule bit_word_eqI) (auto simp add: bit_simps dest: bit_imp_le_length)

lemma generate_session_id_eq:
  "generate_session_id r
     = map (\<lambda>i. hex_digit (unat (drop_bit (4 * (31 - i)) r AND 15))) [0..<12]"
proof -
  have "drop_bit (4 * (31 - i)) (uuid4 r) = drop_bit (4 * (31 - i)) r" if "i < 12" for i
  proof -
    have e: "4 * (31 - i) = 4 * (11 - i) + 80"
      using that by simp
    have "drop_bit (4 * (31 - i)) (uuid4 r) = drop_bit (4 * (11 - i)) (drop_bit 80 (uuid4 r))"
      unfolding e by (simp add: drop_bit_drop_bit add.commute)
    also have "\<dots> = drop_bit (4 * (11 - i)) (drop_bit 80 r)"
      by (simp only: drop_bit_uuid4)
    also have "\<dots> = drop_bit (4 * (31 - i)) r"
      unfolding e by (simp add: drop_bit_drop_bit add.commute)
    finally show ?thesis .
  qed
  then show ?thesis
    by (simp add: generate_session_id_def hex_def take_map take_upt)
qed

lemma hex_digit_inj: "m < 16 \<Longrightarrow> n < 16 \<Longrightarrow> hex_digit m = hex_digit n \<Longrightarrow> m = n"
proof -
  assume m: "m < 16" and n: "n < 16" and e: "hex_digit m = hex_digit n"
  have d: "distinct ''0123456789abcdef''" by simp
  have l: "length ''0123456789abcdef'' = 16" by simp
  from e have "''0123456789abcdef'' ! m = ''0123456789abcdef'' ! n"
    using m n by (simp add: hex_digit_def)
  with d l m n show "m = n"
    by (simp only: nth_eq_iff_index_eq)
qed

lemma nibble_less: "unat ((w :: 128 word) AND 15) < 16"
proof -
  have "(15 :: 128 word) = mask 4"
    by (simp add: mask_eq_exp_minus_1)
  then have "w AND 15 < 2 ^ 4"
    using and_mask_less' [of 4 w] by simp
  then show ?thesis
    by (simp add: word_less_nat_alt)
qed

lemma bit_nibble:
  "j < 4 \<Longrightarrow> bit (drop_bit k (w :: 128 word) AND 15) j = bit w (k + j)"
proof -
  assume j: "j < 4"
  have m: "(15 :: 128 word) = mask 4"
    by (simp add: mask_eq_exp_minus_1)
  show ?thesis
    unfolding m using j by (simp add: bit_simps)
qed

lemma generate_session_id_inj:
  "generate_session_id r' = generate_session_id r \<longleftrightarrow> drop_bit 80 r' = drop_bit 80 r"
proof
  assume e: "generate_session_id r' = generate_session_id r"
  have nib: "drop_bit (4 * (31 - i)) r' AND 15 = drop_bit (4 * (31 - i)) r AND 15"
    if i: "i < 12" for i
  proof -
    from e have "map (\<lambda>i. hex_digit (unat (drop_bit (4 * (31 - i)) r' AND 15))) [0..<12] ! i
        = map (\<lambda>i. hex_digit (unat (drop_bit (4 * (31 - i)) r AND 15))) [0..<12] ! i"
      by (simp only: generate_session_id_eq)
    then have "hex_digit (unat (drop_bit (4 * (31 - i)) r' AND 15))
        = hex_digit (unat (drop_bit (4 * (31 - i)) r AND 15))"
      using i by simp
    then have "unat (drop_bit (4 * (31 - i)) r' AND 15) = unat (drop_bit (4 * (31 - i)) r AND 15)"
      by (rule hex_digit_inj [OF nibble_less nibble_less])
    then show ?thesis
      by (simp only: word_unat_eq_iff)
  qed
  show "drop_bit 80 r' = drop_bit 80 r"
  proof (rule bit_word_eqI)
    fix n
    assume "n < LENGTH(128)"
    show "bit (drop_bit 80 r') n = bit (drop_bit 80 r) n"
    proof (cases "n < 48")
      case True
      define i where "i = 11 - n div 4"
      have i: "i < 12" and k: "4 * (31 - i) + n mod 4 = 80 + n"
        using True by (simp_all add: i_def)
      have "bit (drop_bit (4 * (31 - i)) r' AND 15) (n mod 4)
              = bit (drop_bit (4 * (31 - i)) r AND 15) (n mod 4)"
        by (simp only: nib [OF i])
      then have "bit r' (4 * (31 - i) + n mod 4) = bit r (4 * (31 - i) + n mod 4)"
        by (simp add: bit_nibble)
      then show ?thesis
        unfolding k by (simp add: bit_simps add.commute)
    next
      case False
      then have "\<not> bit r' (80 + n)" "\<not> bit r (80 + n)"
        by (auto dest: bit_imp_le_length)
      then show ?thesis
        by (simp add: bit_simps add.commute)
    qed
  qed
next
  assume e: "drop_bit 80 r' = drop_bit 80 r"
  have "drop_bit (4 * (31 - i)) r' = drop_bit (4 * (31 - i)) r" if "i < 12" for i
  proof -
    have k: "4 * (31 - i) = 4 * (11 - i) + 80"
      using that by simp
    have "drop_bit (4 * (11 - i)) (drop_bit 80 r') = drop_bit (4 * (11 - i)) (drop_bit 80 r)"
      by (simp only: e)
    then show ?thesis
      unfolding k by (simp add: drop_bit_drop_bit add.commute)
  qed
  then show "generate_session_id r' = generate_session_id r"
    by (simp add: generate_session_id_eq)
qed

lemma set_generate_session_id: "set (generate_session_id r) \<subseteq> set ''0123456789abcdef''"
proof -
  have "hex_digit n \<in> set ''0123456789abcdef''" for n
    unfolding hex_digit_def by (rule nth_mem) simp
  then show ?thesis
    by (auto simp: generate_session_id_eq)
qed

text \<open>
  C8. \<open>rotate_session\<close> replaces the session id by a new random 12-character token
  and returns that token; no other field changes (provider, host, port, username,
  password, country, sticky, sticky lifetime and enabled are as before); the formatted
  username built from the instance afterwards carries the new token. New and random
  mean here: the token is computed from the random draw of this call alone, not from the
  instance or its previous session id; it is the 12 leading hexadecimal digits of the
  16 random bytes; and another draw \<open>r'\<close> yields the same token exactly when its 48
  leading bits are those of \<open>r\<close>, so each of the \<open>16 ^ 12\<close> tokens comes from an equal
  share of the draws. The formatter is \<open>_build_proxy_username\<close>, which for a sticky
  iproyal instance raises when the lifetime cannot be written in decimal and otherwise
  returns the username with the segment \<open>session-<token>\<close>.
\<close>

theorem rotate_session_frame:
  "rotate_session pm r = (sid, pm') \<Longrightarrow>
     sid = generate_session_id r \<and>
     sid = map (\<lambda>i. hex_digit (unat (drop_bit (4 * (31 - i)) r AND 15))) [0..<12] \<and>
     length sid = 12 \<and> set sid \<subseteq> set ''0123456789abcdef'' \<and>
     ((fst (rotate_session pm r') = sid) = (drop_bit 80 r' = drop_bit 80 r)) \<and>
     session_id pm' = sid \<and>
     pm' = pm\<lparr>session_id := sid\<rparr> \<and>
     provider pm' = provider pm \<and> host pm' = host pm \<and> port pm' = port pm \<and>
     username pm' = username pm \<and> password pm' = password pm \<and>
     country pm' = country pm \<and> sticky pm' = sticky pm \<and>
     sticky_ttl_minutes pm' = sticky_ttl_minutes pm \<and> enabled pm' = enabled pm \<and>
     (provider pm = ''brightdata'' \<or> provider pm = ''netnut'' \<longrightarrow>
        build_proxy_username pm' =
          Inr (join ''-'' ([username pm]
                      @ (if country pm \<noteq> [] then [''country-'' @ country pm] else [])
                      @ (if sticky pm then [''session-'' @ sid] else [])))) \<and>
     (provider pm = ''iproyal'' \<longrightarrow>
        build_proxy_username pm' =
          (if sticky pm \<and> 10 ^ int_max_str_digits \<le> \<bar>sticky_ttl_minutes pm\<bar>
           then Inl ValueError
           else Inr (join ''_'' ([username pm]
                      @ (if country pm \<noteq> [] then [''country-'' @ country pm] else [])
                      @ (if sticky pm
                         then [''session-'' @ sid,
                               ''sessTime-'' @ decimal (sticky_ttl_minutes pm)]
                         else [])))))"
proof -
  assume "rotate_session pm r = (sid, pm')"
  then have s: "sid = generate_session_id r" and p: "pm' = pm\<lparr>session_id := sid\<rparr>"
    by (auto simp: rotate_session_eq)
  have l: "length sid = 12"
    by (simp add: s length_generate_session_id)
  have h: "set sid \<subseteq> set ''0123456789abcdef''"
    unfolding s by (rule set_generate_session_id)
  have f: "sid = map (\<lambda>i. hex_digit (unat (drop_bit (4 * (31 - i)) r AND 15))) [0..<12]"
    unfolding s by (rule generate_session_id_eq)
  have d: "(fst (rotate_session pm r') = sid) = (drop_bit 80 r' = drop_bit 80 r)"
    unfolding s by (simp add: rotate_session_eq generate_session_id_inj)
  have b: "provider pm = ''brightdata'' \<or> provider pm = ''netnut'' \<longrightarrow>
        build_proxy_username pm' =
          Inr (join ''-'' ([username pm]
                      @ (if country pm \<noteq> [] then [''country-'' @ country pm] else [])
                      @ (if sticky pm then [''session-'' @ sid] else [])))"
    unfolding p by (simp add: build_proxy_username_def)
  have i: "provider pm = ''iproyal'' \<longrightarrow>
        build_proxy_username pm' =
          (if sticky pm \<and> 10 ^ int_max_str_digits \<le> \<bar>sticky_ttl_minutes pm\<bar>
           then Inl ValueError
           else Inr (join ''_'' ([username pm]
                      @ (if country pm \<noteq> [] then [''country-'' @ country pm] else [])
                      @ (if sticky pm
                         then [''session-'' @ sid,
                               ''sessTime-'' @ decimal (sticky_ttl_minutes pm)]
                         else []))))"
    unfolding p by (simp add: build_proxy_username_def str_int_eq Let_def)
  have q: "session_id pm' = sid \<and>
     pm' = pm\<lparr>session_id := sid\<rparr> \<and>
     provider pm' = provider pm \<and> host pm' = host pm \<and> port pm' = port pm \<and>
     username pm' = username pm \<and> password pm' = password pm \<and>
     country pm' = country pm \<and> sticky pm' = sticky pm \<and>
     sticky_ttl_minutes pm' = sticky_ttl_minutes pm \<and> enabled pm' = enabled pm"
    unfolding p by simp
  from s f l h d q b i show ?thesis
    by (intro conjI) (rule s f l h d b i | simp only: q)+
qed

theorem rotate_session_frame_witness:
  "fst (rotate_session pm_netnut 0) = ''000000000000'' \<and>
   snd (rotate_session pm_netnut 0) = pm_netnut\<lparr>session_id := ''000000000000''\<rparr> \<and>
   fst (rotate_session pm_netnut (push_bit 80 1)) \<noteq> ''000000000000'' \<and>
   build_proxy_username (snd (rotate_session pm_netnut 0))
     = Inr ''u-country-us-session-000000000000''"
proof -
  have g: "generate_session_id 0 = ''000000000000''"
    by code_simp
  have r: "rotate_session pm_netnut 0
             = (''000000000000'', pm_netnut\<lparr>session_id := ''000000000000''\<rparr>)"
    by (simp add: rotate_session_eq g)
  have n: "drop_bit 80 (push_bit 80 1 :: 128 word) \<noteq> drop_bit 80 0"
    by simp
  note t = rotate_session_frame [OF r, where r' = "push_bit 80 1"]
  from t have "(fst (rotate_session pm_netnut (push_bit 80 1)) = ''000000000000'')
                 = (drop_bit 80 (push_bit 80 1 :: 128 word) = drop_bit 80 0)"
    by (elim conjE)
  with n have d: "fst (rotate_session pm_netnut (push_bit 80 1)) \<noteq> ''000000000000''"
    by simp
  from t have "provider pm_netnut = ''brightdata'' \<or> provider pm_netnut = ''netnut'' \<longrightarrow>
        build_proxy_username (pm_netnut\<lparr>session_id := ''000000000000''\<rparr>) =
          Inr (join ''-'' ([username pm_netnut]
                      @ (if country pm_netnut \<noteq> [] then [''country-'' @ country pm_netnut] else [])
                      @ (if sticky pm_netnut then [''session-'' @ ''000000000000''] else [])))"
    by (elim conjE)
  then have "build_proxy_username (pm_netnut\<lparr>session_id := ''000000000000''\<rparr>)
          = Inr ''u-country-us-session-000000000000''"
    by (simp add: pm_netnut_def)
  with r d show ?thesis by simp
qed

section \<open>Invariants\<close>

lemma lower_case_strip_lower: "lower_case (strip (lower s))"
proof -
  have "\<not> is_upper c" if "c \<in> set (strip (lower s))" for c
  proof -
    from that set_strip [of "lower s"] have "c \<in> set (lower s)" by (rule subsetD [rotated])
    then obtain d where "c = lower_char d" by (auto simp: lower_def)
    then show ?thesis by (simp add: lower_char_not_upper)
  qed
  then show ?thesis by (simp add: lower_case_def)
qed

lemma stripped_strip: "stripped (strip s)"
  unfolding stripped_def using strip_no_leading [of s] strip_no_trailing [of s] by blast

lemma generate_session_id_nonempty: "generate_session_id r \<noteq> []"
  using length_generate_session_id [of r] by (cases "generate_session_id r") simp_all

lemma init_host_empty:
  "host (init a r) = [] \<Longrightarrow> provider (init a r) \<notin> dom PROVIDER_DEFAULTS \<and> arg_host a = []"
proof -
  assume h: "host (init a r) = []"
  then have e: "arg_host a = []"
    by (simp add: init_fields(9) split: if_splits)
  have "PROVIDER_DEFAULTS (provider (init a r)) = None"
  proof (cases "PROVIDER_DEFAULTS (provider (init a r))")
    case None
    then show ?thesis .
  next
    case (Some d)
    with h e have "fst d = []" by (simp add: init_fields(9))
    with PROVIDER_DEFAULTS_nonempty [OF Some] show ?thesis by simp
  qed
  with e show ?thesis by (simp add: domIff)
qed

lemma init_port_zero:
  "port (init a r) = 0 \<Longrightarrow> provider (init a r) \<notin> dom PROVIDER_DEFAULTS \<and> arg_port a = 0"
proof -
  assume h: "port (init a r) = 0"
  then have e: "arg_port a = 0"
    by (simp add: init_fields(10) split: if_splits)
  have "PROVIDER_DEFAULTS (provider (init a r)) = None"
  proof (cases "PROVIDER_DEFAULTS (provider (init a r))")
    case None
    then show ?thesis .
  next
    case (Some d)
    with h e have "snd d = 0" by (simp add: init_fields(10))
    with PROVIDER_DEFAULTS_nonempty [OF Some] show ?thesis by simp
  qed
  with e show ?thesis by (simp add: domIff)
qed

lemma from_env_init: "from_env env r = Inr pm \<Longrightarrow> \<exists>a. pm = init a r"
  by (auto simp: from_env_def Let_def split: if_splits option.splits)

lemma construct_init: "construct pc env r = Inr pm \<Longrightarrow> \<exists>a. pm = init a r"
  by (auto simp: construct_def split: json.splits)

lemma from_config_init: "from_config loaded env r = Inr pm \<Longrightarrow> \<exists>a. pm = init a r"
  by (auto simp: from_config_def
      split: sum.splits document.splits proxy_entry.splits if_splits
      dest: from_env_init construct_init)

lemma rotations_frame:
  "provider (rotations pm rs) = provider pm"
  "country (rotations pm rs) = country pm"
  "host (rotations pm rs) = host pm"
  "port (rotations pm rs) = port pm"
  "enabled (rotations pm rs) = enabled pm"
  by (induction rs arbitrary: pm) (simp_all add: rotate_session_eq)

lemma rotations_session_id:
  "session_id pm \<noteq> [] \<Longrightarrow> session_id (rotations pm rs) \<noteq> []"
  by (induction rs arbitrary: pm) (simp_all add: rotate_session_eq generate_session_id_nonempty)

text \<open>
  C9. For every instance, built by the constructor (which both factory helpers end in)
  and rotated any number of times: the session id is not empty; the provider and the
  country are lower-case and have no white space at either end; the host is empty only
  when the instance is disabled or its provider is not in the table and no host was
  supplied, and the port is 0 only when the instance is disabled or its provider is
  not in the table and no port was supplied.
\<close>

theorem instance_invariant:
  "session_id (rotations (init a r) rs) \<noteq> [] \<and>
   lower_case (provider (rotations (init a r) rs)) \<and>
   stripped (provider (rotations (init a r) rs)) \<and>
   lower_case (country (rotations (init a r) rs)) \<and>
   stripped (country (rotations (init a r) rs)) \<and>
   (host (rotations (init a r) rs) = [] \<longrightarrow>
      \<not> enabled (rotations (init a r) rs) \<or>
      (provider (rotations (init a r) rs) \<notin> dom PROVIDER_DEFAULTS \<and> arg_host a = [])) \<and>
   (port (rotations (init a r) rs) = 0 \<longrightarrow>
      \<not> enabled (rotations (init a r) rs) \<or>
      (provider (rotations (init a r) rs) \<notin> dom PROVIDER_DEFAULTS \<and> arg_port a = 0))"
proof -
  have "session_id (init a r) \<noteq> []"
    by (simp add: init_fields(8) generate_session_id_nonempty)
  then have s: "session_id (rotations (init a r) rs) \<noteq> []"
    by (rule rotations_session_id)
  have n: "lower_case (provider (init a r))" "stripped (provider (init a r))"
    "lower_case (country (init a r))" "stripped (country (init a r))"
    by (simp_all add: init_fields(1,2) lower_case_strip_lower stripped_strip)
  show ?thesis
    unfolding rotations_frame
    using s n init_host_empty [of a r] init_port_zero [of a r] by blast
qed

theorem instance_invariant_witness:
  "provider (rotations (init (default_args\<lparr>arg_provider := '' Custom ''\<rparr>) 1) [0, 2]) = ''custom'' \<and>
   host (rotations (init (default_args\<lparr>arg_provider := '' Custom ''\<rparr>) 1) [0, 2]) = [] \<and>
   session_id (rotations (init (default_args\<lparr>arg_provider := '' Custom ''\<rparr>) 1) [0, 2]) \<noteq> [] \<and>
   ''custom'' \<notin> dom PROVIDER_DEFAULTS \<and> lower_case ''custom'' \<and> stripped ''custom''"
proof -
  let ?a = "default_args\<lparr>arg_provider := '' Custom ''\<rparr>"
  let ?i = "init ?a 1"
  let ?pm = "rotations ?i [0, 2]"
  have pi: "provider ?i = ''custom''"
    by (simp add: init_fields(1) strip_def is_space_def lower_eval)
  have ah: "arg_host ?a = []"
    by (simp add: default_args_def)
  have hi: "host ?i = []"
    by (simp add: init_fields(9) ah pi PROVIDER_DEFAULTS_def)
  have ei: "enabled ?i"
    by (simp add: init_fields(7) default_args_def)
  have p: "provider ?pm = ''custom''" and h: "host ?pm = []" and e: "enabled ?pm"
    by (simp_all only: rotations_frame pi hi ei)
  from instance_invariant [of ?a 1 "[0, 2]"] p h e show ?thesis by simp
qed

section \<open>Disabled instances of the factory helpers\<close>

lemma port_22225_small: "\<bar>22225 :: int\<bar> < 10 ^ int_max_str_digits"
proof -
  have "(10::int) ^ 5 \<le> 10 ^ int_max_str_digits"
    by (intro power_increasing) (simp_all add: int_max_str_digits_def)
  then show ?thesis by simp
qed

text \<open>
  C10. Every disabled instance the factory helpers produce (\<open>PROXY_ENABLED\<close> unset or
  not a true value, also after a failed load; the \<open>proxy\<close> section absent, or with
  \<open>enabled\<close> missing or false) is \<open>cls(enabled=False)\<close>: its provider is the default
  \<open>brightdata\<close>, so its host is \<open>brd.superproxy.io\<close> and its port 22225. A disabled
  instance need not have an empty host: the two output methods return \<open>None\<close> for it
  because of the flag alone, and would return a value were the flag set.
\<close>

theorem disabled_factory_defaults:
  "(\<not> truthy_str (getenv env ''PROXY_ENABLED'' ''false'') \<longrightarrow>
      from_env env r = Inr (cls_disabled r) \<and>
      from_config (Inl exc) env r = Inr (cls_disabled r)) \<and>
   (entry = None \<or>
    (\<exists>sect. entry = Some (Section sect) \<and>
       (case cfg_enabled sect of None \<Rightarrow> True | Some v \<Rightarrow> \<not> truthy v)) \<longrightarrow>
      from_config (Inr (Dict entry)) env r = Inr (cls_disabled r)) \<and>
   \<not> enabled (cls_disabled r) \<and>
   provider (cls_disabled r) = ''brightdata'' \<and>
   host (cls_disabled r) = ''brd.superproxy.io'' \<and>
   port (cls_disabled r) = 22225 \<and>
   get_playwright_proxy (cls_disabled r) = Inr None \<and>
   get_requests_proxy (cls_disabled r) = Inr None \<and>
   (\<exists>d. get_playwright_proxy ((cls_disabled r)\<lparr>enabled := True\<rparr>) = Inr (Some d)) \<and>
   (\<exists>d. get_requests_proxy ((cls_disabled r)\<lparr>enabled := True\<rparr>) = Inr (Some d))"
proof -
  have env: "\<not> truthy_str (getenv env ''PROXY_ENABLED'' ''false'') \<longrightarrow>
      from_env env r = Inr (cls_disabled r) \<and>
      from_config (Inl exc) env r = Inr (cls_disabled r)"
    by (simp add: from_env_disabled from_config_def)
  have cfg: "entry = None \<or>
    (\<exists>sect. entry = Some (Section sect) \<and>
       (case cfg_enabled sect of None \<Rightarrow> True | Some v \<Rightarrow> \<not> truthy v)) \<longrightarrow>
      from_config (Inr (Dict entry)) env r = Inr (cls_disabled r)"
    using from_config_no_section [of env r] from_config_section_disabled [of _ env r]
    by blast
  have f: "\<not> enabled (cls_disabled r)" "provider (cls_disabled r) = ''brightdata''"
    "host (cls_disabled r) = ''brd.superproxy.io''" "port (cls_disabled r) = 22225"
    by (simp_all add: init_disabled_fields)
  have o: "get_playwright_proxy (cls_disabled r) = Inr None"
    "get_requests_proxy (cls_disabled r) = Inr None"
    using outputs_absent [of "cls_disabled r"] f(1) by simp_all
  have e: "\<exists>d. get_playwright_proxy ((cls_disabled r)\<lparr>enabled := True\<rparr>) = Inr (Some d)"
    "\<exists>d. get_requests_proxy ((cls_disabled r)\<lparr>enabled := True\<rparr>) = Inr (Some d)"
    using port_22225_small
    by (simp_all add: get_playwright_proxy_def get_requests_proxy_def build_proxy_username_def
        Let_def init_disabled_fields str_int_eq)
  from env cfg f o e show ?thesis by blast
qed

theorem disabled_factory_defaults_witness:
  "from_env Map.empty 0 = Inr (cls_disabled 0) \<and>
   from_config (Inl FileNotFoundError) Map.empty 0 = Inr (cls_disabled 0) \<and>
   from_config (Inr (Dict None)) Map.empty 0 = Inr (cls_disabled 0) \<and>
   from_config (Inr (Dict (Some (Section (empty_section\<lparr>cfg_provider := Some (Str ''iproyal'')\<rparr>)))))
       Map.empty 0
     = Inr (cls_disabled 0) \<and>
   host (cls_disabled 0) = ''brd.superproxy.io'' \<and> port (cls_disabled 0) = 22225"
proof -
  have h1: "\<not> truthy_str (getenv Map.empty ''PROXY_ENABLED'' ''false'')"
    by (simp add: truthy_str_def getenv_def lower_eval)
  have h3: "\<exists>sect. Some (Section (empty_section\<lparr>cfg_provider := Some (Str ''iproyal'')\<rparr>))
                = Some (Section sect) \<and>
            (case cfg_enabled sect of None \<Rightarrow> True | Some v \<Rightarrow> \<not> truthy v)"
    by (simp add: empty_section_def)
  from disabled_factory_defaults [of Map.empty 0 FileNotFoundError None] h1
  have a: "from_env Map.empty 0 = Inr (cls_disabled 0) \<and>
           from_config (Inl FileNotFoundError) Map.empty 0 = Inr (cls_disabled 0) \<and>
           from_config (Inr (Dict None)) Map.empty 0 = Inr (cls_disabled 0) \<and>
           host (cls_disabled 0) = ''brd.superproxy.io'' \<and> port (cls_disabled 0) = 22225"
    by blast
  from disabled_factory_defaults
         [of Map.empty 0 FileNotFoundError
             "Some (Section (empty_section\<lparr>cfg_provider := Some (Str ''iproyal'')\<rparr>))"] h3
  have "from_config (Inr (Dict (Some (Section (empty_section\<lparr>cfg_provider := Some (Str ''iproyal'')\<rparr>)))))
            Map.empty 0
          = Inr (cls_disabled 0)"
    by blast
  with a show ?thesis by blast
qed

section \<open>What the factory helpers raise\<close>

lemma getenv_unset: "env k = None \<Longrightarrow> getenv env k d = d"
  by (simp add: getenv_def)

lemma int_str_defaults: "int_str ''0'' = Some 0" "int_str ''10'' = Some 10"
  by (simp_all add: int_str_def int_space_def is_digit_def digit_val_def int_max_str_digits_def)

lemma from_env_enabled:
  "truthy_str (getenv env ''PROXY_ENABLED'' ''false'') \<Longrightarrow>
   int_str (getenv env ''PROXY_PORT'' ''0'') = Some p \<Longrightarrow>
   int_str (getenv env ''PROXY_STICKY_TTL'' ''10'') = Some t \<Longrightarrow>
   from_env env r =
     Inr (init \<lparr>arg_provider = getenv env ''PROXY_PROVIDER'' ''brightdata'',
                arg_host = getenv env ''PROXY_HOST'' [],
                arg_port = p,
                arg_username = getenv env ''PROXY_USERNAME'' [],
                arg_password = getenv env ''PROXY_PASSWORD'' [],
                arg_country = getenv env ''PROXY_COUNTRY'' [],
                arg_sticky = truthy_str (getenv env ''PROXY_STICKY'' ''true''),
                arg_sticky_ttl_minutes = t,
                arg_enabled = True\<rparr> r)"
  by (simp add: from_env_def)

lemma from_env_ValueError_iff:
  "from_env env r = Inl ValueError \<longleftrightarrow>
     truthy_str (getenv env ''PROXY_ENABLED'' ''false'') \<and>
     (int_str (getenv env ''PROXY_PORT'' ''0'') = None \<or>
      int_str (getenv env ''PROXY_STICKY_TTL'' ''10'') = None)"
  by (simp add: from_env_def Let_def split: option.splits)

lemma from_env_cases: "from_env env r = Inl ValueError \<or> (\<exists>pm. from_env env r = Inr pm)"
  by (simp add: from_env_def Let_def split: option.splits)

lemma construct_cases:
  "construct s env r = Inl AttributeError \<or> (\<exists>pm. construct s env r = Inr pm)"
  by (simp add: construct_def split: json.splits prod.splits)

lemma construct_Inr_iff:
  "(\<exists>pm. construct s env r = Inr pm) \<longleftrightarrow>
     (case cfg_provider s of None \<Rightarrow> True | Some v \<Rightarrow> is_str v) \<and>
     (case cfg_country s of None \<Rightarrow> True | Some v \<Rightarrow> is_str v \<or> \<not> truthy v)"
  by (cases "cfg_provider s"; cases "cfg_country s")
     (auto simp: construct_def get_or_def py_or_def is_str_def split: json.splits)

lemma construct_Inr_D:
  "construct s env r = Inr pm \<Longrightarrow>
   \<exists>prov c. pm = init
            \<lparr>arg_provider = prov,
             arg_host = (case cfg_host s of Has h \<Rightarrow> h | _ \<Rightarrow> []),
             arg_port = (case cfg_port s of Has p \<Rightarrow> p | _ \<Rightarrow> 0),
             arg_username = str_or (cfg_username s) (getenv env ''PROXY_USERNAME'' []),
             arg_password = str_or (cfg_password s) (getenv env ''PROXY_PASSWORD'' []),
             arg_country = c,
             arg_sticky = get_or (cfg_sticky s) True,
             arg_sticky_ttl_minutes = get_or (cfg_sticky_ttl_minutes s) 10,
             arg_enabled = True\<rparr> r"
  by (auto simp: construct_def split: json.splits)

lemma construct_fields:
  "construct s env r = Inr pm \<Longrightarrow>
     enabled pm \<and>
     sticky pm = (case cfg_sticky s of None \<Rightarrow> True | Some b \<Rightarrow> b) \<and>
     sticky_ttl_minutes pm = (case cfg_sticky_ttl_minutes s of None \<Rightarrow> 10 | Some t \<Rightarrow> t) \<and>
     (case cfg_port s of Has q \<Rightarrow> q \<noteq> 0 \<longrightarrow> port pm = q | _ \<Rightarrow> True) \<and>
     (case cfg_host s of Has h \<Rightarrow> h \<noteq> [] \<longrightarrow> host pm = h | _ \<Rightarrow> True)"
proof -
  assume "construct s env r = Inr pm"
  then obtain a where pm: "pm = init a r"
    and a: "arg_enabled a" "arg_sticky a = get_or (cfg_sticky s) True"
      "arg_sticky_ttl_minutes a = get_or (cfg_sticky_ttl_minutes s) 10"
      "arg_port a = (case cfg_port s of Has p \<Rightarrow> p | _ \<Rightarrow> 0)"
      "arg_host a = (case cfg_host s of Has h \<Rightarrow> h | _ \<Rightarrow> [])"
    by (auto dest!: construct_Inr_D)
  have 1: "enabled pm"
    by (simp add: pm init_fields a(1))
  have 2: "sticky pm = (case cfg_sticky s of None \<Rightarrow> True | Some b \<Rightarrow> b)"
    by (simp add: pm init_fields a(2) get_or_def)
  have 3: "sticky_ttl_minutes pm = (case cfg_sticky_ttl_minutes s of None \<Rightarrow> 10 | Some t \<Rightarrow> t)"
    by (simp add: pm init_fields a(3) get_or_def)
  have 4: "case cfg_port s of Has q \<Rightarrow> q \<noteq> 0 \<longrightarrow> port pm = q | _ \<Rightarrow> True"
    by (cases "cfg_port s") (simp_all add: pm init_fields(10) a(4))
  have 5: "case cfg_host s of Has h \<Rightarrow> h \<noteq> [] \<longrightarrow> host pm = h | _ \<Rightarrow> True"
    by (cases "cfg_host s") (simp_all add: pm init_fields(9) a(5))
  from 1 2 3 4 5 show ?thesis by simp
qed

lemma from_config_section_enabled:
  "(case cfg_enabled s of None \<Rightarrow> False | Some v \<Rightarrow> truthy v) \<Longrightarrow>
   from_config (Inr (Dict (Some (Section s)))) env r = construct s env r"
  by (simp add: from_config_def get_or_def split: option.splits)

lemma construct_not_ValueError: "construct s env r \<noteq> Inl ValueError"
  using construct_cases [of s env r] by auto

lemma from_config_not_ValueError: "from_config (Inr cfg) env r \<noteq> Inl ValueError"
  by (simp add: from_config_def construct_not_ValueError
      split: document.splits proxy_entry.splits)

text \<open>
  C1, as the code has it. \<open>from_env\<close> raises ValueError exactly when \<open>PROXY_ENABLED\<close>
  is a true value and \<open>PROXY_PORT\<close> or \<open>PROXY_STICKY_TTL\<close> is set to a string \<open>int\<close>
  does not accept; in every other case it returns an instance. A value that parses is
  used as it is, and an unset \<open>PROXY_PORT\<close> or \<open>PROXY_STICKY_TTL\<close> is read as 0 or 10.

  \<open>from_config\<close> does what \<open>from_env\<close> does when the load fails. On a loaded document
  it never raises ValueError. It raises AttributeError when the document is not a
  \<open>dict\<close>, and when the entry under \<open>proxy\<close> is not one. Without a \<open>proxy\<close> entry, and with
  a section \<open>off\<close> whose \<open>enabled\<close> is missing or false, it returns the disabled default
  instance. With a section \<open>on\<close> whose \<open>enabled\<close> is true it returns an instance exactly
  when \<open>provider\<close> is missing or a string and \<open>country\<close> is missing, a string, or a false
  value (which the environment's string replaces), and raises AttributeError otherwise;
  the instance is enabled, a missing \<open>sticky\<close> or \<open>sticky_ttl_minutes\<close> is read as true
  or 10, and a non-zero port and a non-empty host are kept. The sections meant are those
  of type \<open>proxy_section\<close>: \<open>enabled\<close>, \<open>provider\<close> and \<open>country\<close> hold any value, the
  other six a value of the type the constructor annotates.
\<close>

theorem construction_raises:
  "(from_env env r = Inl ValueError \<longleftrightarrow>
      truthy_str (getenv env ''PROXY_ENABLED'' ''false'') \<and>
      (int_str (getenv env ''PROXY_PORT'' ''0'') = None \<or>
       int_str (getenv env ''PROXY_STICKY_TTL'' ''10'') = None)) \<and>
   ((\<exists>pm. from_env env r = Inr pm) \<longleftrightarrow> from_env env r \<noteq> Inl ValueError) \<and>
   (truthy_str (getenv env ''PROXY_ENABLED'' ''false'') \<and>
    int_str (getenv env ''PROXY_PORT'' ''0'') = Some p \<and>
    int_str (getenv env ''PROXY_STICKY_TTL'' ''10'') = Some t \<longrightarrow>
      (\<exists>pm. from_env env r = Inr pm \<and> enabled pm \<and> sticky_ttl_minutes pm = t \<and>
            (p \<noteq> 0 \<longrightarrow> port pm = p))) \<and>
   (env ''PROXY_PORT'' = None \<longrightarrow> int_str (getenv env ''PROXY_PORT'' ''0'') = Some 0) \<and>
   (env ''PROXY_STICKY_TTL'' = None \<longrightarrow>
      int_str (getenv env ''PROXY_STICKY_TTL'' ''10'') = Some 10) \<and>
   from_config (Inl exc) env r = from_env env r \<and>
   from_config (Inr cfg) env r \<noteq> Inl ValueError \<and>
   from_config (Inr (NotDict v)) env r = Inl AttributeError \<and>
   from_config (Inr (Dict (Some (NotSection v)))) env r = Inl AttributeError \<and>
   from_config (Inr (Dict None)) env r = Inr (cls_disabled r) \<and>
   ((case cfg_enabled off of None \<Rightarrow> True | Some x \<Rightarrow> \<not> truthy x) \<longrightarrow>
      from_config (Inr (Dict (Some (Section off)))) env r = Inr (cls_disabled r)) \<and>
   ((case cfg_enabled on of None \<Rightarrow> False | Some x \<Rightarrow> truthy x) \<longrightarrow>
      ((\<exists>pm. from_config (Inr (Dict (Some (Section on)))) env r = Inr pm) \<longleftrightarrow>
         (case cfg_provider on of None \<Rightarrow> True | Some x \<Rightarrow> is_str x) \<and>
         (case cfg_country on of None \<Rightarrow> True | Some x \<Rightarrow> is_str x \<or> \<not> truthy x)) \<and>
      ((\<nexists>pm. from_config (Inr (Dict (Some (Section on)))) env r = Inr pm) \<longleftrightarrow>
         from_config (Inr (Dict (Some (Section on)))) env r = Inl AttributeError) \<and>
      (\<forall>pm. from_config (Inr (Dict (Some (Section on)))) env r = Inr pm \<longrightarrow>
         enabled pm \<and>
         sticky pm = (case cfg_sticky on of None \<Rightarrow> True | Some b \<Rightarrow> b) \<and>
         sticky_ttl_minutes pm
           = (case cfg_sticky_ttl_minutes on of None \<Rightarrow> 10 | Some t \<Rightarrow> t) \<and>
         (case cfg_port on of Has q \<Rightarrow> q \<noteq> 0 \<longrightarrow> port pm = q | _ \<Rightarrow> True) \<and>
         (case cfg_host on of Has h \<Rightarrow> h \<noteq> [] \<longrightarrow> host pm = h | _ \<Rightarrow> True)))"
proof -
  have a: "(\<exists>pm. from_env env r = Inr pm) \<longleftrightarrow> from_env env r \<noteq> Inl ValueError"
    using from_env_cases [of env r] by auto
  have b: "truthy_str (getenv env ''PROXY_ENABLED'' ''false'') \<and>
    int_str (getenv env ''PROXY_PORT'' ''0'') = Some p \<and>
    int_str (getenv env ''PROXY_STICKY_TTL'' ''10'') = Some t \<longrightarrow>
      (\<exists>pm. from_env env r = Inr pm \<and> enabled pm \<and> sticky_ttl_minutes pm = t \<and>
            (p \<noteq> 0 \<longrightarrow> port pm = p))"
    by (simp add: from_env_enabled init_fields)
  have c: "env ''PROXY_PORT'' = None \<longrightarrow> int_str (getenv env ''PROXY_PORT'' ''0'') = Some 0"
    "env ''PROXY_STICKY_TTL'' = None \<longrightarrow>
      int_str (getenv env ''PROXY_STICKY_TTL'' ''10'') = Some 10"
    by (simp_all add: getenv_unset int_str_defaults)
  have d: "from_config (Inl exc) env r = from_env env r"
    "from_config (Inr (NotDict v)) env r = Inl AttributeError"
    "from_config (Inr (Dict (Some (NotSection v)))) env r = Inl AttributeError"
    by (simp_all add: from_config_def get_or_def)
  have e: "(case cfg_enabled off of None \<Rightarrow> True | Some x \<Rightarrow> \<not> truthy x) \<longrightarrow>
      from_config (Inr (Dict (Some (Section off)))) env r = Inr (cls_disabled r)"
    by (simp add: from_config_section_disabled)
  have f: "(case cfg_enabled on of None \<Rightarrow> False | Some x \<Rightarrow> truthy x) \<longrightarrow>
      ((\<exists>pm. from_config (Inr (Dict (Some (Section on)))) env r = Inr pm) \<longleftrightarrow>
         (case cfg_provider on of None \<Rightarrow> True | Some x \<Rightarrow> is_str x) \<and>
         (case cfg_country on of None \<Rightarrow> True | Some x \<Rightarrow> is_str x \<or> \<not> truthy x)) \<and>
      ((\<nexists>pm. from_config (Inr (Dict (Some (Section on)))) env r = Inr pm) \<longleftrightarrow>
         from_config (Inr (Dict (Some (Section on)))) env r = Inl AttributeError) \<and>
      (\<forall>pm. from_config (Inr (Dict (Some (Section on)))) env r = Inr pm \<longrightarrow>
         enabled pm \<and>
         sticky pm = (case cfg_sticky on of None \<Rightarrow> True | Some b \<Rightarrow> b) \<and>
         sticky_ttl_minutes pm
           = (case cfg_sticky_ttl_minutes on of None \<Rightarrow> 10 | Some t \<Rightarrow> t) \<and>
         (case cfg_port on of Has q \<Rightarrow> q \<noteq> 0 \<longrightarrow> port pm = q | _ \<Rightarrow> True) \<and>
         (case cfg_host on of Has h \<Rightarrow> h \<noteq> [] \<longrightarrow> host pm = h | _ \<Rightarrow> True))"
  proof
    assume "case cfg_enabled on of None \<Rightarrow> False | Some x \<Rightarrow> truthy x"
    then have g: "from_config (Inr (Dict (Some (Section on)))) env r = construct on env r"
      by (rule from_config_section_enabled)
    have "(\<nexists>pm. construct on env r = Inr pm) \<longleftrightarrow> construct on env r = Inl AttributeError"
      using construct_cases [of on env r] by auto
    then show "((\<exists>pm. from_config (Inr (Dict (Some (Section on)))) env r = Inr pm) \<longleftrightarrow>
         (case cfg_provider on of None \<Rightarrow> True | Some x \<Rightarrow> is_str x) \<and>
         (case cfg_country on of None \<Rightarrow> True | Some x \<Rightarrow> is_str x \<or> \<not> truthy x)) \<and>
      ((\<nexists>pm. from_config (Inr (Dict (Some (Section on)))) env r = Inr pm) \<longleftrightarrow>
         from_config (Inr (Dict (Some (Section on)))) env r = Inl AttributeError) \<and>
      (\<forall>pm. from_config (Inr (Dict (Some (Section on)))) env r = Inr pm \<longrightarrow>
         enabled pm \<and>
         sticky pm = (case cfg_sticky on of None \<Rightarrow> True | Some b \<Rightarrow> b) \<and>
         sticky_ttl_minutes pm
           = (case cfg_sticky_ttl_minutes on of None \<Rightarrow> 10 | Some t \<Rightarrow> t) \<and>
         (case cfg_port on of Has q \<Rightarrow> q \<noteq> 0 \<longrightarrow> port pm = q | _ \<Rightarrow> True) \<and>
         (case cfg_host on of Has h \<Rightarrow> h \<noteq> [] \<longrightarrow> host pm = h | _ \<Rightarrow> True))"
      unfolding g using construct_Inr_iff [of on env r] construct_fields [of on env r]
      by blast
  qed
  show ?thesis
    by (intro conjI)
       (rule from_env_ValueError_iff a b c d e f from_config_not_ValueError
          from_config_no_section)+
qed

theorem construction_raises_witness:
  "(\<exists>pm. from_env [''PROXY_ENABLED'' \<mapsto> ''Yes'', ''PROXY_PORT'' \<mapsto> '' 8_080 ''] 0 = Inr pm
      \<and> enabled pm \<and> sticky_ttl_minutes pm = 10 \<and> port pm = 8080) \<and>
   (\<exists>pm. from_env [''PROXY_ENABLED'' \<mapsto> ''true''] 0 = Inr pm
      \<and> enabled pm \<and> sticky_ttl_minutes pm = 10) \<and>
   from_config (Inr (NotDict NoneValue)) [''PROXY_ENABLED'' \<mapsto> ''true''] 0
     = Inl AttributeError \<and>
   from_config (Inr (Dict (Some (Section empty_section)))) [''PROXY_ENABLED'' \<mapsto> ''true''] 0
     = Inr (cls_disabled 0) \<and>
   (\<exists>pm. from_config
           (Inr (Dict (Some (Section (empty_section\<lparr>cfg_enabled := Some (Bool True),
                                                      cfg_port := Has 8080\<rparr>)))))
           [''PROXY_ENABLED'' \<mapsto> ''true''] 0 = Inr pm
      \<and> enabled pm \<and> sticky_ttl_minutes pm = 10 \<and> port pm = 8080) \<and>
   from_config
       (Inr (Dict (Some (Section (empty_section\<lparr>cfg_enabled := Some (Bool True),
                                                  cfg_provider := Some (Num 5)\<rparr>)))))
       [''PROXY_ENABLED'' \<mapsto> ''Yes'', ''PROXY_PORT'' \<mapsto> '' 8_080 ''] 0
     = Inl AttributeError"
proof -
  let ?env = "[''PROXY_ENABLED'' \<mapsto> ''Yes'', ''PROXY_PORT'' \<mapsto> '' 8_080 '']"
  let ?env' = "[''PROXY_ENABLED'' \<mapsto> ''true'']"
  let ?on = "empty_section\<lparr>cfg_enabled := Some (Bool True), cfg_port := Has 8080\<rparr>"
  let ?bad = "empty_section\<lparr>cfg_enabled := Some (Bool True), cfg_provider := Some (Num 5)\<rparr>"
  have h1: "truthy_str (getenv ?env ''PROXY_ENABLED'' ''false'')"
    by (simp add: truthy_str_def getenv_def lower_eval)
  have h2: "int_str (getenv ?env ''PROXY_PORT'' ''0'') = Some 8080"
    by (simp add: getenv_def int_str_def int_space_def is_digit_def digit_val_def
        int_max_str_digits_def)
  have h3: "int_str (getenv ?env ''PROXY_STICKY_TTL'' ''10'') = Some 10"
    by (simp add: getenv_def int_str_defaults)
  have k1: "truthy_str (getenv ?env' ''PROXY_ENABLED'' ''false'')"
    by (simp add: truthy_str_def getenv_def lower_eval)
  have k2: "?env' ''PROXY_PORT'' = None" "?env' ''PROXY_STICKY_TTL'' = None"
    by simp_all
  have off: "case cfg_enabled empty_section of None \<Rightarrow> True | Some x \<Rightarrow> \<not> truthy x"
    by (simp add: empty_section_def)
  have on: "case cfg_enabled ?on of None \<Rightarrow> False | Some x \<Rightarrow> truthy x"
    "case cfg_provider ?on of None \<Rightarrow> True | Some x \<Rightarrow> is_str x"
    "case cfg_country ?on of None \<Rightarrow> True | Some x \<Rightarrow> is_str x \<or> \<not> truthy x"
    "cfg_port ?on = Has 8080" "cfg_sticky_ttl_minutes ?on = None"
    by (simp_all add: empty_section_def)
  have bad: "case cfg_enabled ?bad of None \<Rightarrow> False | Some x \<Rightarrow> truthy x"
    "\<not> (case cfg_provider ?bad of None \<Rightarrow> True | Some x \<Rightarrow> is_str x)"
    by (simp_all add: empty_section_def is_str_def)
  note t1 = construction_raises
    [where env = ?env and r = 0 and p = 8080 and t = 10 and exc = FileNotFoundError
       and cfg = "Dict None" and v = NoneValue and off = empty_section and on = ?bad]
  note t2 = construction_raises
    [where env = ?env' and r = 0 and p = 0 and t = 10 and exc = FileNotFoundError
       and cfg = "Dict None" and v = NoneValue and off = empty_section and on = ?on]
  from t1 h1 h2 h3
  have a: "\<exists>pm. from_env ?env 0 = Inr pm \<and> enabled pm \<and> sticky_ttl_minutes pm = 10
             \<and> port pm = 8080"
    by simp
  from t1 bad
  have b: "from_config (Inr (Dict (Some (Section ?bad)))) ?env 0 = Inl AttributeError"
    by blast
  from t2 k2 have "int_str (getenv ?env' ''PROXY_PORT'' ''0'') = Some 0"
    "int_str (getenv ?env' ''PROXY_STICKY_TTL'' ''10'') = Some 10"
    by blast+
  with t2 k1
  have c: "\<exists>pm. from_env ?env' 0 = Inr pm \<and> enabled pm \<and> sticky_ttl_minutes pm = 10"
    by blast
  from t2 off
  have d: "from_config (Inr (NotDict NoneValue)) ?env' 0 = Inl AttributeError"
    "from_config (Inr (Dict (Some (Section empty_section)))) ?env' 0 = Inr (cls_disabled 0)"
    by blast+
  from t2 on(1,2,3)
  have "\<exists>pm. from_config (Inr (Dict (Some (Section ?on)))) ?env' 0 = Inr pm"
    by blast
  then obtain pm where pm: "from_config (Inr (Dict (Some (Section ?on)))) ?env' 0 = Inr pm" ..
  from t2 on(1) pm
  have "enabled pm \<and>
        sticky_ttl_minutes pm = (case cfg_sticky_ttl_minutes ?on of None \<Rightarrow> 10 | Some t \<Rightarrow> t) \<and>
        (case cfg_port ?on of Has q \<Rightarrow> q \<noteq> 0 \<longrightarrow> port pm = q | _ \<Rightarrow> True)"
    by blast
  then have "enabled pm \<and> sticky_ttl_minutes pm = 10 \<and> port pm = 8080"
    unfolding on(4,5) by simp
  with pm
  have e: "\<exists>pm. from_config (Inr (Dict (Some (Section ?on)))) ?env' 0 = Inr pm
             \<and> enabled pm \<and> sticky_ttl_minutes pm = 10 \<and> port pm = 8080"
    by blast
  from a b c d e show ?thesis
    by (intro conjI)
qed

text \<open>
  The code does not degrade a malformed number to a default: \<open>int\<close> raises on a
  non-numeric \<open>PROXY_PORT\<close> or \<open>PROXY_STICKY_TTL\<close>. \<open>from_config\<close> raises on a
  document that is a JSON array, and on an enabled section whose \<open>provider\<close> is a number.
\<close>

theorem construction_never_raises_counterexample:
  "from_env [''PROXY_ENABLED'' \<mapsto> ''true'', ''PROXY_PORT'' \<mapsto> ''abc''] 0 = Inl ValueError \<and>
   from_env [''PROXY_ENABLED'' \<mapsto> ''1'', ''PROXY_STICKY_TTL'' \<mapsto> ''ten''] 0 = Inl ValueError \<and>
   from_config (Inr (NotDict (ListValue []))) Map.empty 0 = Inl AttributeError \<and>
   from_config
       (Inr (Dict (Some (Section (empty_section\<lparr>cfg_enabled := Some (Bool True),
                                                  cfg_provider := Some (Num 5)\<rparr>)))))
       Map.empty 0
     = Inl AttributeError"
  by (simp add: from_env_def from_config_def construct_def get_or_def empty_section_def
      getenv_def truthy_str_def lower_eval
      int_str_def int_space_def is_digit_def digit_val_def int_max_str_digits_def)

end
